theory Spec2Isabelle
  imports Complex_Main
begin

section \<open>Python values\<close>

text \<open>
  The program is Python. Its strings are modelled as \<open>string\<close> (texts are taken to be
  ASCII), its unbounded integers as \<open>int\<close> or \<open>nat\<close>, and its floats as real
  numbers: every product, quotient and comparison below is the exact one, and
  \<open>round(x, n)\<close> is rounding to \<open>n\<close> decimals with ties to the even neighbour,
  which is what Python does on the exact value of a float. Exceptions are values of
  \<open>py_error\<close>; a function that can raise returns \<open>py_error + 'a\<close>.
\<close>

datatype py_error =
    TypeError
  | KeyError string
  | ValueError
  | MissingConfigurationError
    \<comment> \<open>the error named by the specification; no function of the source raises it\<close>

definition round_half_even :: "real \<Rightarrow> int" where
  "round_half_even x =
     (let f = \<lfloor>x\<rfloor>; d = x - of_int f
      in if d < 1 / 2 then f
         else if 1 / 2 < d then f + 1
         else if even f then f else f + 1)"

definition py_round :: "real \<Rightarrow> nat \<Rightarrow> real" where
  "py_round x n = of_int (round_half_even (x * 10 ^ n)) / 10 ^ n"

subsection \<open>Strings\<close>

definition lower_char :: "char \<Rightarrow> char" where
  "lower_char c =
     (case map_of (zip ''ABCDEFGHIJKLMNOPQRSTUVWXYZ'' ''abcdefghijklmnopqrstuvwxyz'') c of
        None \<Rightarrow> c
      | Some d \<Rightarrow> d)"

definition upper_char :: "char \<Rightarrow> char" where
  "upper_char c =
     (case map_of (zip ''abcdefghijklmnopqrstuvwxyz'' ''ABCDEFGHIJKLMNOPQRSTUVWXYZ'') c of
        None \<Rightarrow> c
      | Some d \<Rightarrow> d)"

text \<open>\<open>s.lower()\<close>\<close>

definition lower :: "string \<Rightarrow> string" where
  "lower s = map lower_char s"

definition is_alpha :: "char \<Rightarrow> bool" where
  "is_alpha c = (c \<in> set ''abcdefghijklmnopqrstuvwxyzABCDEFGHIJKLMNOPQRSTUVWXYZ'')"

definition is_digit :: "char \<Rightarrow> bool" where
  "is_digit c = (c \<in> set ''0123456789'')"

text \<open>The characters Python treats as whitespace (\<open>\s\<close>, \<open>split()\<close>, \<open>strip()\<close>), in ASCII.\<close>

definition is_space :: "char \<Rightarrow> bool" where
  "is_space c =
     (c \<in> {CHR 0x09, CHR 0x0A, CHR 0x0B, CHR 0x0C, CHR 0x0D,
            CHR 0x1C, CHR 0x1D, CHR 0x1E, CHR 0x1F, CHR 0x20})"

text \<open>\<open>\w\<close>\<close>

definition is_word :: "char \<Rightarrow> bool" where
  "is_word c = (is_alpha c \<or> is_digit c \<or> c = CHR ''_'')"

text \<open>\<open>s.title()\<close>: a letter is upper-cased after a non-letter and lower-cased after a letter.\<close>

fun title_from :: "bool \<Rightarrow> string \<Rightarrow> string" where
  "title_from prev [] = []"
| "title_from prev (c # cs) =
     (if is_alpha c then (if prev then lower_char c else upper_char c) # title_from True cs
      else c # title_from False cs)"

definition title :: "string \<Rightarrow> string" where
  "title s = title_from False s"

text \<open>\<open>k in t\<close> on strings: \<open>k\<close> occurs in \<open>t\<close> as a contiguous substring.\<close>

fun starts_with :: "string \<Rightarrow> string \<Rightarrow> bool" where
  "starts_with [] t = True"
| "starts_with (k # ks) [] = False"
| "starts_with (k # ks) (c # cs) = (k = c \<and> starts_with ks cs)"

fun contains :: "string \<Rightarrow> string \<Rightarrow> bool" where
  "contains k [] = (k = [])"
| "contains k (c # cs) = (starts_with k (c # cs) \<or> contains k cs)"

text \<open>\<open>s.split()\<close>: the maximal runs of non-whitespace characters.\<close>

fun split_from :: "string \<Rightarrow> string \<Rightarrow> string list" where
  "split_from w [] = (if w = [] then [] else [w])"
| "split_from w (c # cs) =
     (if is_space c then (if w = [] then split_from [] cs else w # split_from [] cs)
      else split_from (w @ [c]) cs)"

definition str_split :: "string \<Rightarrow> string list" where
  "str_split s = split_from [] s"

text \<open>\<open>s.strip()\<close>\<close>

definition strip :: "string \<Rightarrow> string" where
  "strip s = rev (dropWhile is_space (rev (dropWhile is_space s)))"

text \<open>\<open>int(s)\<close> on a string of digits; anything else here (a decimal point) is a ValueError.\<close>

definition digit_value :: "char \<Rightarrow> nat" where
  "digit_value c = of_char c - 48"

definition py_int :: "string \<Rightarrow> py_error + int" where
  "py_int s =
     (if s \<noteq> [] \<and> list_all is_digit s
      then Inr (int (foldl (\<lambda>a c. 10 * a + digit_value c) 0 s))
      else Inl ValueError)"

section \<open>The text analyzer (src/models/text_analyzer.py)\<close>

subsection \<open>Keyword tables\<close>

text \<open>The dictionaries of \<open>TextAnalyzer.__init__\<close>, as association lists in insertion order.\<close>

definition business_keywords :: "(string \<times> string list) list" where
  "business_keywords =
     [(''retail'', [''store'', ''shop'', ''retail'', ''ecommerce'', ''online store'',
                    ''marketplace'', ''selling'', ''products'']),
      (''restaurant'', [''restaurant'', ''food'', ''delivery'', ''takeout'', ''dining'',
                        ''cafe'', ''menu'', ''kitchen'']),
      (''healthcare'', [''medical'', ''healthcare'', ''clinic'', ''hospital'', ''patient'',
                        ''doctor'', ''health'', ''medicine'']),
      (''education'', [''school'', ''education'', ''learning'', ''course'', ''training'',
                       ''academy'', ''student'', ''teaching'']),
      (''logistics'', [''logistics'', ''shipping'', ''delivery'', ''warehouse'',
                       ''supply chain'', ''transport'', ''freight'']),
      (''finance'', [''banking'', ''finance'', ''investment'', ''accounting'', ''budget'',
                     ''money'', ''financial'']),
      (''real_estate'', [''real estate'', ''property'', ''housing'', ''rental'', ''mortgage'',
                         ''realty'', ''home'']),
      (''consulting'', [''consulting'', ''consultant'', ''advisory'',
                        ''professional services'', ''business advice''])]"

definition platform_indicators :: "(string \<times> string list) list" where
  "platform_indicators =
     [(''mobile'', [''mobile'', ''phone'', ''android'', ''ios'', ''smartphone'', ''tablet'']),
      (''web'', [''website'', ''web'', ''online'', ''browser'', ''internet'',
                 ''web application'']),
      (''desktop'', [''desktop'', ''computer'', ''pc'', ''software'', ''application'',
                     ''program''])]"

definition feature_keywords :: "(string \<times> string list) list" where
  "feature_keywords =
     [(''inventory'', [''inventory'', ''stock'', ''products'', ''items'', ''catalog'']),
      (''payment'', [''payment'', ''billing'', ''checkout'', ''pay'', ''money'',
                     ''transaction'']),
      (''tracking'', [''tracking'', ''monitoring'', ''analytics'', ''reports'', ''dashboard'']),
      (''user_management'', [''users'', ''accounts'', ''profiles'', ''registration'',
                             ''login'']),
      (''communication'', [''chat'', ''messaging'', ''email'', ''notifications'', ''alerts'']),
      (''scheduling'', [''appointments'', ''booking'', ''calendar'', ''schedule'',
                        ''reservations'']),
      (''reporting'', [''reports'', ''analytics'', ''statistics'', ''data'', ''insights''])]"

subsection \<open>The analysis record\<close>

record budget_indicators =
  budget_mentioned :: bool
  budget_amounts :: "int list"
  has_budget_info :: bool

record timeline_indicators =
  timeline_mentioned :: bool
  time_indicators :: "string list"
  has_timeline_info :: bool

text \<open>
  The dictionary returned by \<open>analyze_text\<close>. The pairs are (value, confidence), the
  sentiment is (polarity, subjectivity).
\<close>

record analysis =
  original_text :: string
  processed_text :: string
  clarity_score :: real
  business_type :: "string \<times> real"
  platform_preference :: "string \<times> real"
  detected_features :: "string list"
  sentiment :: "real \<times> real"
  urgency_level :: string
  budget_indicators :: budget_indicators
  timeline_indicators :: timeline_indicators
  portability :: string
  notification_requirement :: string

subsection \<open>Preprocessing\<close>

text \<open>\<open>re.sub(r'\s+', ' ', text)\<close>: the flag says that the previous character was whitespace.\<close>

fun collapse_whitespace :: "bool \<Rightarrow> string \<Rightarrow> string" where
  "collapse_whitespace in_run [] = []"
| "collapse_whitespace in_run (c # cs) =
     (if is_space c
      then (if in_run then collapse_whitespace True cs
            else CHR '' '' # collapse_whitespace True cs)
      else c # collapse_whitespace False cs)"

definition preprocess_text :: "string \<Rightarrow> string" where
  "preprocess_text text =
     (let text = lower text;
          text = collapse_whitespace False text;
          text = filter (\<lambda>c. is_word c \<or> is_space c \<or> c \<in> set ''-.,!?'') text
      in strip text)"

subsection \<open>Keyword scoring\<close>

text \<open>\<open>sum(1 for keyword in keywords if keyword in text_lower)\<close>\<close>

definition keyword_count :: "string list \<Rightarrow> string \<Rightarrow> nat" where
  "keyword_count keywords text_lower = length (filter (\<lambda>keyword. contains keyword text_lower) keywords)"

text \<open>The dictionary \<open>scores\<close> built by the loop over a keyword table.\<close>

definition keyword_scores :: "(string \<times> string list) list \<Rightarrow> string \<Rightarrow> (string \<times> nat) list" where
  "keyword_scores table text_lower =
     map (\<lambda>(key, keywords). (key, keyword_count keywords text_lower)) table"

text \<open>
  \<open>max(scores, key=scores.get)\<close>: Python's \<open>max\<close> walks the keys in order and replaces
  its candidate only by a strictly larger one.
\<close>

fun max_by_score :: "string \<times> nat \<Rightarrow> (string \<times> nat) list \<Rightarrow> string \<times> nat" where
  "max_by_score best [] = best"
| "max_by_score best (x # xs) = max_by_score (if snd best < snd x then x else best) xs"

text \<open>\<open>max(len(keywords) for keywords in table.values())\<close>\<close>

definition max_keywords :: "(string \<times> string list) list \<Rightarrow> nat" where
  "max_keywords table = fold max (map (\<lambda>(key, keywords). length keywords) table) 0"

text \<open>
  The body shared by \<open>_classify_business_type\<close> and \<open>_detect_platform_preference\<close>; they
  differ in the table and in the pair returned when no keyword matches.
\<close>

definition best_match ::
  "(string \<times> string list) list \<Rightarrow> string \<times> real \<Rightarrow> string \<Rightarrow> string \<times> real" where
  "best_match table dflt text =
     (let text_lower = lower text;
          scores = keyword_scores table text_lower
      in if \<not> list_ex (\<lambda>(key, score). score \<noteq> 0) scores then dflt
         else (case scores of
                 [] \<Rightarrow> dflt
               | x # xs \<Rightarrow>
                   (let (best, score) = max_by_score x xs;
                        confidence = of_nat score / of_nat (max_keywords table)
                    in (best, py_round confidence 2))))"

definition classify_business_type :: "string \<Rightarrow> string \<times> real" where
  "classify_business_type text = best_match business_keywords (''unknown'', 0) text"

definition detect_platform_preference :: "string \<Rightarrow> string \<times> real" where
  "detect_platform_preference text = best_match platform_indicators (''web'', 0.3) text"

definition extract_features :: "string \<Rightarrow> string list" where
  "extract_features text =
     (let text_lower = lower text
      in map fst (filter (\<lambda>(feature_category, keywords).
                             list_ex (\<lambda>keyword. contains keyword text_lower) keywords)
                    feature_keywords))"

subsection \<open>Clarity and sentiment\<close>

text \<open>
  The tokenizer (spaCy) and the sentiment analyser (TextBlob) are libraries outside the
  repository: \<open>nlp\<close> gives the texts of the tokens of a string, \<open>blob\<close> its polarity and
  subjectivity.
\<close>

definition any_keyword_in :: "(string \<times> string list) list \<Rightarrow> string \<Rightarrow> bool" where
  "any_keyword_in table token = list_ex (\<lambda>keyword. contains keyword token) (concat (map snd table))"

definition calculate_clarity_score :: "(string \<Rightarrow> string list) \<Rightarrow> string \<Rightarrow> real" where
  "calculate_clarity_score nlp text =
     (let doc = nlp (lower text);
          business_terms = length (filter (any_keyword_in business_keywords) doc);
          platform_terms = length (filter (any_keyword_in platform_indicators) doc);
          feature_terms = length (filter (any_keyword_in feature_keywords) doc);
          total_indicators = business_terms + platform_terms + feature_terms;
          text_length = length (str_split text)
      in if text_length = 0 then 0
         else py_round (min 1 (of_nat total_indicators / of_nat text_length * 10 + 0.2)) 2)"

definition analyze_sentiment :: "(string \<Rightarrow> real \<times> real) \<Rightarrow> string \<Rightarrow> real \<times> real" where
  "analyze_sentiment blob text =
     (let (polarity, subjectivity) = blob text
      in (py_round polarity 2, py_round subjectivity 2))"

subsection \<open>Urgency, budget, timeline\<close>

definition detect_urgency :: "string \<Rightarrow> string" where
  "detect_urgency text =
     (let urgency_keywords = [''urgent'', ''asap'', ''quickly'', ''fast'', ''immediate'',
                              ''emergency'', ''rush''];
          text_lower = lower text;
          urgency_count = keyword_count urgency_keywords text_lower
      in if 2 \<le> urgency_count then ''high''
         else if urgency_count = 1 then ''medium''
         else ''low'')"

text \<open>
  \<open>re.findall(r'\$?(\d+(?:,\d{3})*(?:\.\d{2})?)', text)\<close>. Everything after \<open>\d+\<close> is
  optional and greedy, so a match at a position exists exactly when a digit stands there
  (after an optional dollar sign) and is the longest one; the scan goes on behind it.
\<close>

fun thousands_groups :: "string \<Rightarrow> string \<times> string" where
  "thousands_groups (c # d1 # d2 # d3 # rest) =
     (if c = CHR '','' \<and> is_digit d1 \<and> is_digit d2 \<and> is_digit d3
      then (let (groups, rest') = thousands_groups rest in (c # d1 # d2 # d3 # groups, rest'))
      else ([], c # d1 # d2 # d3 # rest))"
| "thousands_groups s = ([], s)"

fun cents :: "string \<Rightarrow> string \<times> string" where
  "cents (c # d1 # d2 # rest) =
     (if c = CHR ''.'' \<and> is_digit d1 \<and> is_digit d2 then ([c, d1, d2], rest)
      else ([], c # d1 # d2 # rest))"
| "cents s = ([], s)"

definition match_number :: "string \<Rightarrow> (string \<times> string) option" where
  "match_number s =
     (let digits = takeWhile is_digit s
      in if digits = [] then None
         else (let (groups, rest) = thousands_groups (dropWhile is_digit s);
                   (fraction, rest') = cents rest
               in Some (digits @ groups @ fraction, rest')))"

text \<open>
  The scan, by the number of characters still covered by the last match: a match found at
  a position covers its dollar sign and its own characters.
\<close>

fun findall_numbers :: "nat \<Rightarrow> string \<Rightarrow> string list" where
  "findall_numbers covered [] = []"
| "findall_numbers (Suc covered) (c # cs) = findall_numbers covered cs"
| "findall_numbers 0 (c # cs) =
     (if c = CHR ''$''
      then (case match_number cs of
              None \<Rightarrow> findall_numbers 0 cs
            | Some (num, rest) \<Rightarrow> num # findall_numbers (length num) cs)
      else (case match_number (c # cs) of
              None \<Rightarrow> findall_numbers 0 cs
            | Some (num, rest) \<Rightarrow> num # findall_numbers (length num - 1) cs))"

text \<open>
  \<open>[int(num.replace(',', '')) for num in numbers if int(num.replace(',', '')) > 100]\<close>:
  the first number with a decimal part makes \<open>int\<close> raise.
\<close>

fun amounts_over_100 :: "string list \<Rightarrow> py_error + int list" where
  "amounts_over_100 [] = Inr []"
| "amounts_over_100 (num # numbers) =
     (case py_int (filter (\<lambda>c. c \<noteq> CHR '','') num) of
        Inl e \<Rightarrow> Inl e
      | Inr amount \<Rightarrow>
          (case amounts_over_100 numbers of
             Inl e \<Rightarrow> Inl e
           | Inr amounts \<Rightarrow> Inr (if 100 < amount then amount # amounts else amounts)))"

definition extract_budget_indicators :: "string \<Rightarrow> py_error + budget_indicators" where
  "extract_budget_indicators text =
     (let budget_keywords = [''budget'', ''cost'', ''price'', ''affordable'', ''cheap'',
                             ''expensive'', ''money''];
          text_lower = lower text;
          mentioned = list_ex (\<lambda>keyword. contains keyword text_lower) budget_keywords;
          numbers = findall_numbers 0 text
      in case amounts_over_100 numbers of
           Inl e \<Rightarrow> Inl e
         | Inr amounts \<Rightarrow>
             Inr \<lparr>budget_mentioned = mentioned, budget_amounts = amounts,
                  has_budget_info = (0 < length amounts)\<rparr>)"

definition extract_timeline_indicators :: "string \<Rightarrow> timeline_indicators" where
  "extract_timeline_indicators text =
     (let timeline_keywords = [''timeline'', ''deadline'', ''schedule'', ''time'', ''when'',
                               ''duration''];
          text_lower = lower text;
          mentioned = list_ex (\<lambda>keyword. contains keyword text_lower) timeline_keywords;
          time_words = [''week'', ''month'', ''year'', ''day'', ''hour''];
          indicators = filter (\<lambda>word. contains word text_lower) time_words
      in \<lparr>timeline_mentioned = mentioned, time_indicators = indicators,
          has_timeline_info = (0 < length indicators)\<rparr>)"

subsection \<open>Portability and notifications\<close>

definition detect_portability_requirement :: "string \<Rightarrow> string" where
  "detect_portability_requirement text =
     (let text_lower = lower text;
          high_portability_keywords =
            [''mobile'', ''phone'', ''smartphone'', ''tablet'', ''ios'', ''android'',
             ''on-the-go'', ''portable'', ''travel'', ''remote'', ''field'', ''outdoor'',
             ''delivery'', ''tracking'', ''location'', ''gps'', ''real-time'', ''instant'',
             ''anywhere'', ''everywhere'', ''accessible'', ''mobile-first'', ''responsive''];
          medium_portability_keywords =
            [''web'', ''website'', ''online'', ''browser'', ''responsive'', ''tablet-friendly'',
             ''cross-platform'', ''accessible'', ''remote access'', ''cloud-based''];
          low_portability_keywords =
            [''desktop'', ''computer'', ''pc'', ''workstation'', ''office'', ''stationary'',
             ''fixed'', ''local'', ''internal'', ''enterprise'', ''corporate''];
          high_count = keyword_count high_portability_keywords text_lower;
          medium_count = keyword_count medium_portability_keywords text_lower;
          low_count = keyword_count low_portability_keywords text_lower
      in if 0 < high_count then ''high''
         else if 0 < medium_count then ''medium''
         else if 0 < low_count then ''low''
         else ''medium'')"

definition major_notification_keywords :: "string list" where
  "major_notification_keywords =
     [''notification'', ''alert'', ''push'', ''real-time'', ''instant'', ''immediate'',
      ''urgent'', ''emergency'', ''critical'', ''important'', ''reminder'', ''ping'',
      ''message'', ''update'', ''status'', ''tracking'', ''monitoring'', ''live'',
      ''notify'', ''alarm'', ''warning'', ''announcement'', ''broadcast'']"

definition minor_notification_keywords :: "string list" where
  "minor_notification_keywords =
     [''email'', ''report'', ''summary'', ''daily'', ''weekly'', ''monthly'',
      ''newsletter'', ''update'', ''news'', ''information'', ''communication'']"

definition detect_notification_requirement :: "string \<Rightarrow> string" where
  "detect_notification_requirement text =
     (let text_lower = lower text;
          major_count = keyword_count major_notification_keywords text_lower;
          minor_count = keyword_count minor_notification_keywords text_lower
      in if 2 \<le> major_count then ''major''
         else if 0 < minor_count then ''minor''
         else ''none'')"

subsection \<open>The analysis\<close>

definition analyze_text ::
  "(string \<Rightarrow> string list) \<Rightarrow> (string \<Rightarrow> real \<times> real) \<Rightarrow> string \<Rightarrow> py_error + analysis" where
  "analyze_text nlp blob text =
     (case extract_budget_indicators text of
        Inl e \<Rightarrow> Inl e
      | Inr budget \<Rightarrow>
          Inr \<lparr>original_text = text,
               processed_text = preprocess_text text,
               clarity_score = calculate_clarity_score nlp text,
               business_type = classify_business_type text,
               platform_preference = detect_platform_preference text,
               detected_features = extract_features text,
               sentiment = analyze_sentiment blob text,
               urgency_level = detect_urgency text,
               budget_indicators = budget,
               timeline_indicators = extract_timeline_indicators text,
               portability = detect_portability_requirement text,
               notification_requirement = detect_notification_requirement text\<rparr>)"

subsection \<open>Clarification\<close>

definition needs_clarification :: "analysis \<Rightarrow> bool" where
  "needs_clarification analysis =
     (let clarity = clarity_score analysis;
          (business, confidence) = business_type analysis
      in clarity < 0.5 \<or> business = ''unknown'' \<or> confidence < 0.3 \<or>
         length (detected_features analysis) = 0)"

definition generate_clarification_questions :: "analysis \<Rightarrow> string list" where
  "generate_clarification_questions analysis =
     (let questions = [];
          (business, confidence) = business_type analysis;
          questions = (if business = ''unknown'' \<or> confidence < 0.3
                       then questions @ [''What type of business do you operate?'']
                       else questions);
          questions = (if length (detected_features analysis) = 0
                       then questions @ [''What specific features or functionality do you need?'']
                       else questions);
          questions = (if \<not> budget_mentioned (budget_indicators analysis)
                       then questions @ [''Do you have a budget range in mind for this project?'']
                       else questions);
          questions = (if \<not> timeline_mentioned (timeline_indicators analysis)
                       then questions @ [''When do you need this system to be completed?'']
                       else questions);
          questions = (if clarity_score analysis < 0.4
                       then questions @ [''Can you provide more details about your business requirements?'']
                       else questions)
      in take 3 questions)"

section \<open>The recommendation engine (src/engine/recommendation_engine.py)\<close>

subsection \<open>Tables\<close>

record stack_info =
  name :: string
  description :: string
  pros :: "string list"
  cons :: "string list"
  cost_factor :: real
  timeline_factor :: real

definition tech_stacks :: "(string \<times> (string \<times> stack_info) list) list" where
  "tech_stacks =
     [(''mobile'',
        [(''flutter'',
           \<lparr>name = ''Flutter + Firebase'',
            description = ''Cross-platform mobile development with cloud backend'',
            pros = [''Cross-platform'', ''Fast development'', ''Rich UI components''],
            cons = [''Limited native features'', ''Large app size''],
            cost_factor = 1.0, timeline_factor = 1.0\<rparr>),
         (''react_native'',
           \<lparr>name = ''React Native + Node.js'',
            description = ''JavaScript-based mobile development'',
            pros = [''Cross-platform'', ''Large community'', ''Reusable code''],
            cons = [''Performance issues'', ''Native dependencies''],
            cost_factor = 0.9, timeline_factor = 1.1\<rparr>),
         (''native_ios'',
           \<lparr>name = ''Swift + iOS Native'',
            description = ''Native iOS development'',
            pros = [''Best performance'', ''Full iOS features'', ''App Store optimization''],
            cons = [''iOS only'', ''Higher cost'', ''Longer timeline''],
            cost_factor = 1.3, timeline_factor = 1.4\<rparr>),
         (''native_android'',
           \<lparr>name = ''Kotlin + Android Native'',
            description = ''Native Android development'',
            pros = [''Best performance'', ''Full Android features'',
                    ''Google Play optimization''],
            cons = [''Android only'', ''Higher cost'', ''Longer timeline''],
            cost_factor = 1.2, timeline_factor = 1.3\<rparr>)]),
      (''web'',
        [(''mern'',
           \<lparr>name = ''MERN Stack (MongoDB, Express, React, Node.js)'',
            description = ''Full-stack JavaScript development'',
            pros = [''Fast development'', ''Large ecosystem'', ''Scalable''],
            cons = [''JavaScript everywhere'', ''Learning curve''],
            cost_factor = 0.8, timeline_factor = 0.9\<rparr>),
         (''mean'',
           \<lparr>name = ''MEAN Stack (MongoDB, Express, Angular, Node.js)'',
            description = ''Full-stack JavaScript with Angular'',
            pros = [''TypeScript support'', ''Enterprise-ready'', ''Comprehensive framework''],
            cons = [''Steep learning curve'', ''Heavy framework''],
            cost_factor = 1.0, timeline_factor = 1.1\<rparr>),
         (''django'',
           \<lparr>name = ''Django + PostgreSQL'',
            description = ''Python-based web development'',
            pros = [''Rapid development'', ''Built-in admin'', ''Security features''],
            cons = [''Less flexible'', ''Monolithic''],
            cost_factor = 0.9, timeline_factor = 0.8\<rparr>),
         (''laravel'',
           \<lparr>name = ''Laravel + MySQL'',
            description = ''PHP-based web development'',
            pros = [''Elegant syntax'', ''Rich ecosystem'', ''Easy deployment''],
            cons = [''PHP ecosystem'', ''Performance concerns''],
            cost_factor = 0.7, timeline_factor = 0.9\<rparr>)]),
      (''desktop'',
        [(''electron'',
           \<lparr>name = ''Electron + React'',
            description = ''Cross-platform desktop development'',
            pros = [''Cross-platform'', ''Web technologies'', ''Rapid development''],
            cons = [''Large app size'', ''Memory usage'', ''Security concerns''],
            cost_factor = 0.8, timeline_factor = 0.9\<rparr>),
         (''qt'',
           \<lparr>name = ''Qt + Python'',
            description = ''Native desktop development'',
            pros = [''Native performance'', ''Cross-platform'', ''Rich UI''],
            cons = [''Complex setup'', ''Licensing costs''],
            cost_factor = 1.1, timeline_factor = 1.2\<rparr>),
         (''wpf'',
           \<lparr>name = ''WPF + C#'',
            description = ''Windows desktop development'',
            pros = [''Native Windows'', ''Rich UI'', ''Good performance''],
            cons = [''Windows only'', ''Microsoft ecosystem''],
            cost_factor = 1.0, timeline_factor = 1.0\<rparr>)])]"

definition business_features :: "(string \<times> string list) list" where
  "business_features =
     [(''retail'', [''inventory_management'', ''payment_processing'', ''order_tracking'',
                    ''customer_management'', ''analytics_dashboard'', ''multi_vendor_support'']),
      (''restaurant'', [''menu_management'', ''online_ordering'', ''delivery_tracking'',
                        ''reservation_system'', ''kitchen_display'', ''loyalty_program'']),
      (''healthcare'', [''patient_management'', ''appointment_scheduling'', ''medical_records'',
                        ''billing_system'', ''prescription_management'', ''telemedicine'']),
      (''education'', [''course_management'', ''student_portal'', ''progress_tracking'',
                       ''video_streaming'', ''assignment_submission'', ''grade_management'']),
      (''logistics'', [''route_optimization'', ''real_time_tracking'', ''inventory_management'',
                       ''driver_app'', ''warehouse_management'', ''analytics_dashboard'']),
      (''finance'', [''account_management'', ''transaction_history'', ''budget_tracking'',
                     ''financial_reports'', ''investment_portfolio'', ''loan_management'']),
      (''real_estate'', [''property_listings'', ''search_filters'', ''virtual_tours'',
                         ''contact_forms'', ''lead_management'', ''property_analytics'']),
      (''consulting'', [''project_management'', ''time_tracking'', ''client_billing'',
                        ''report_generation'', ''resource_management'', ''knowledge_base''])]"

definition feature_descriptions :: "(string \<times> string) list" where
  "feature_descriptions =
     [(''inventory_management'', ''Track and manage product inventory in real-time''),
      (''payment_processing'', ''Secure payment processing with multiple payment methods''),
      (''order_tracking'', ''Real-time order status tracking for customers''),
      (''customer_management'', ''Comprehensive customer database and relationship management''),
      (''analytics_dashboard'', ''Business intelligence and performance analytics''),
      (''multi_vendor_support'', ''Support for multiple vendors and suppliers''),
      (''menu_management'', ''Dynamic menu creation and management system''),
      (''online_ordering'', ''Online food ordering and delivery system''),
      (''delivery_tracking'', ''Real-time delivery tracking for customers''),
      (''reservation_system'', ''Table reservation and booking management''),
      (''kitchen_display'', ''Kitchen order display and management system''),
      (''loyalty_program'', ''Customer loyalty and rewards program''),
      (''patient_management'', ''Comprehensive patient information management''),
      (''appointment_scheduling'', ''Automated appointment booking and scheduling''),
      (''medical_records'', ''Secure electronic health records management''),
      (''billing_system'', ''Automated billing and insurance processing''),
      (''prescription_management'', ''Digital prescription and medication tracking''),
      (''telemedicine'', ''Video consultation and remote healthcare services''),
      (''course_management'', ''Learning management system for courses''),
      (''student_portal'', ''Student dashboard and self-service portal''),
      (''progress_tracking'', ''Student progress monitoring and assessment''),
      (''video_streaming'', ''Educational video content delivery''),
      (''assignment_submission'', ''Digital assignment submission and grading''),
      (''grade_management'', ''Automated grading and transcript management''),
      (''route_optimization'', ''AI-powered route planning and optimization''),
      (''real_time_tracking'', ''GPS-based real-time location tracking''),
      (''driver_app'', ''Mobile application for drivers and delivery personnel''),
      (''warehouse_management'', ''Inventory and warehouse operations management''),
      (''account_management'', ''Banking account and transaction management''),
      (''transaction_history'', ''Detailed transaction history and statements''),
      (''budget_tracking'', ''Personal and business budget management''),
      (''financial_reports'', ''Comprehensive financial reporting and analytics''),
      (''investment_portfolio'', ''Investment tracking and portfolio management''),
      (''loan_management'', ''Loan application and management system''),
      (''property_listings'', ''Real estate property listing and showcase''),
      (''search_filters'', ''Advanced property search and filtering''),
      (''virtual_tours'', ''360-degree virtual property tours''),
      (''contact_forms'', ''Lead capture and contact management''),
      (''lead_management'', ''Sales lead tracking and management''),
      (''property_analytics'', ''Real estate market analytics and insights''),
      (''project_management'', ''Comprehensive project planning and tracking''),
      (''time_tracking'', ''Employee time tracking and billing''),
      (''client_billing'', ''Automated client billing and invoicing''),
      (''report_generation'', ''Automated report generation and delivery''),
      (''resource_management'', ''Team and resource allocation management''),
      (''knowledge_base'', ''Documentation and knowledge management system''),
      (''tracking'', ''Real-time activity and data tracking with analytics'')]"

subsection \<open>Inputs and results\<close>

text \<open>
  The dictionary \<open>additional_info\<close>: a key that is absent is \<open>None\<close>. The argument itself
  defaults to Python's \<open>None\<close>, so the functions take an \<open>additional_info option\<close>.
\<close>

record additional_info =
  info_portability_requirement :: "string option"
  info_business_type :: "string option"
  info_access_requirement :: "string option"
  info_budget_constraint :: "real option"
  info_timeline_constraint :: "real option"
  info_requested_features :: "string list option"
  info_tech_stack_preference :: "string option"

text \<open>The dictionary built by \<open>_recommend_platform\<close>: its keys are type, platform, confidence, reasoning.\<close>

record platform_rec =
  rec_type :: string
  platform :: string
  confidence :: real
  reasoning :: string

record feature_rec =
  feature :: string
  feature_description :: string
  priority :: string
  estimated_effort :: int
  estimated_cost :: int

text \<open>
  The dictionary built by \<open>_recommend_tech_stack\<close>. The one returned for a platform
  without stacks has no name, no cost factor and no timeline factor.
\<close>

record tech_stack_rec =
  tech_stack :: string
  stack_name :: "string option"
  stack_description :: string
  stack_pros :: "string list"
  stack_cons :: "string list"
  stack_cost_factor :: "real option"
  stack_timeline_factor :: "real option"
  stack_confidence :: real

text \<open>The ranges are formatted into a string by the source; here they are the two bounds.\<close>

record cost_estimate =
  base_cost :: int
  feature_cost :: int
  total_cost :: real
  cost_range :: "real \<times> real"
  currency :: string

record timeline_estimate =
  base_timeline :: int
  feature_timeline :: int
  total_timeline :: real
  timeline_range :: "real \<times> real"
  unit_ :: string

record recommendation =
  input_analysis :: analysis
  rec_needs_clarification :: bool
  clarification_questions :: "string list"
  platform_recommendation :: platform_rec
  feature_recommendations :: "feature_rec list"
  tech_stack_recommendation :: tech_stack_rec
  cost_estimate :: cost_estimate
  timeline_estimate :: timeline_estimate
  confidence_score :: real

text \<open>
  \<open>additional_info[key]\<close>: a TypeError on \<open>None\<close>, a KeyError on a dictionary without the key.
\<close>

definition subscript ::
  "additional_info option \<Rightarrow> string \<Rightarrow> (additional_info \<Rightarrow> 'a option) \<Rightarrow> py_error + 'a" where
  "subscript additional_info key field =
     (case additional_info of
        None \<Rightarrow> Inl TypeError
      | Some d \<Rightarrow> (case field d of None \<Rightarrow> Inl (KeyError key) | Some v \<Rightarrow> Inr v))"

text \<open>\<open>additional_info and key in additional_info\<close>, giving the value under the key.\<close>

definition optional ::
  "additional_info option \<Rightarrow> (additional_info \<Rightarrow> 'a option) \<Rightarrow> 'a option" where
  "optional additional_info field =
     (case additional_info of None \<Rightarrow> None | Some d \<Rightarrow> field d)"

text \<open>
  The random source: a stream of natural numbers. \<open>random.randint(a, b)\<close> takes the next
  one into the range from \<open>a\<close> to \<open>b\<close>.
\<close>

type_synonym rng = "nat \<Rightarrow> nat"

definition randint :: "int \<Rightarrow> int \<Rightarrow> rng \<Rightarrow> int \<times> rng" where
  "randint a b g = (a + int (g 0 mod nat (b - a + 1)), \<lambda>i. g (Suc i))"

subsection \<open>Platform\<close>

text \<open>
  Every path of \<open>_recommend_platform\<close> returns inside the first \<open>if\<close>; the mapping by
  business type that follows it in the source is never reached.
\<close>

definition recommend_platform :: "analysis \<Rightarrow> additional_info option \<Rightarrow> py_error + platform_rec" where
  "recommend_platform analysis additional_info =
     (let (platform_pref, platform_confidence) = platform_preference analysis
      in case subscript additional_info ''portability_requirement'' info_portability_requirement of
           Inl e \<Rightarrow> Inl e
         | Inr portability_req \<Rightarrow>
       (case subscript additional_info ''business_type'' info_business_type of
           Inl e \<Rightarrow> Inl e
         | Inr business \<Rightarrow>
       (case subscript additional_info ''access_requirement'' info_access_requirement of
           Inl e \<Rightarrow> Inl e
         | Inr access \<Rightarrow>
       (let notification = lower (notification_requirement analysis)
        in if portability_req = ''high'' \<or> notification = ''major''
           then Inr \<lparr>rec_type = business, platform = ''mobile'', confidence = 0.95,
                     reasoning = ''Mobile recommended due to high portability requirement''\<rparr>
           else if portability_req = ''low'' \<or> access = ''offline''
           then Inr \<lparr>rec_type = business, platform = ''desktop'', confidence = 0.9,
                     reasoning = ''Desktop recommended due to low portability requirement''\<rparr>
           else Inr \<lparr>rec_type = business, platform = platform_pref, confidence = 0.9,
                     reasoning = title platform_pref @
                       '' recommended due to medium portability requirement''\<rparr>))))"

subsection \<open>Features\<close>

definition make_feature :: "string \<Rightarrow> string \<Rightarrow> string \<Rightarrow> rng \<Rightarrow> feature_rec \<times> rng" where
  "make_feature f missing prio g =
     (let (effort, g) = randint 2 8 g;
          (cost, g) = randint 1000 5000 g
      in (\<lparr>feature = f,
           feature_description =
             (case map_of feature_descriptions f of None \<Rightarrow> missing | Some d \<Rightarrow> d),
           priority = prio, estimated_effort = effort, estimated_cost = cost\<rparr>, g))"

text \<open>The loops over the detected and over the base features: every feature is appended.\<close>

fun append_features ::
  "string \<Rightarrow> string \<Rightarrow> string list \<Rightarrow> feature_rec list \<Rightarrow> rng \<Rightarrow> feature_rec list \<times> rng" where
  "append_features missing prio [] recs g = (recs, g)"
| "append_features missing prio (f # fs) recs g =
     (let (r, g) = make_feature f missing prio g
      in append_features missing prio fs (recs @ [r]) g)"

text \<open>The loop over the requested features: one already in the list is skipped.\<close>

fun append_requested :: "string list \<Rightarrow> feature_rec list \<Rightarrow> rng \<Rightarrow> feature_rec list \<times> rng" where
  "append_requested [] recs g = (recs, g)"
| "append_requested (f # fs) recs g =
     (if f \<notin> set (map feature recs)
      then (let (r, g) = make_feature f ''Feature description not available'' ''medium'' g
            in append_requested fs (recs @ [r]) g)
      else append_requested fs recs g)"

definition recommend_features ::
  "analysis \<Rightarrow> additional_info option \<Rightarrow> rng \<Rightarrow> py_error + (feature_rec list \<times> rng)" where
  "recommend_features analysis additional_info g =
     (case subscript additional_info ''business_type'' info_business_type of
        Inl e \<Rightarrow> Inl e
      | Inr business \<Rightarrow>
          (let detected = detected_features analysis;
               (recs, g) = (if detected \<noteq> []
                            then append_features ''None'' ''high'' detected [] g
                            else ([], g));
               base_features =
                 take 3 (case map_of business_features business of None \<Rightarrow> [] | Some fs \<Rightarrow> fs);
               (recs, g) = append_features ''Feature description not available'' ''medium''
                             base_features recs g
           in case optional additional_info info_requested_features of
                None \<Rightarrow> Inr (recs, g)
              | Some requested \<Rightarrow> Inr (append_requested requested recs g)))"

subsection \<open>Technology stack\<close>

text \<open>\<open>self.tech_stacks.get(platform, {})\<close>\<close>

definition available_stacks :: "string \<Rightarrow> (string \<times> stack_info) list" where
  "available_stacks p = (case map_of tech_stacks p of None \<Rightarrow> [] | Some stacks \<Rightarrow> stacks)"

definition recommend_tech_stack ::
  "platform_rec \<Rightarrow> analysis \<Rightarrow> additional_info option \<Rightarrow> py_error + tech_stack_rec" where
  "recommend_tech_stack platform_rec analysis additional_info =
     (let p = platform platform_rec
      in case subscript additional_info ''business_type'' info_business_type of
           Inl e \<Rightarrow> Inl e
         | Inr business \<Rightarrow>
             (case available_stacks p of
                [] \<Rightarrow>
                  Inr \<lparr>tech_stack = ''Unknown'', stack_name = None,
                       stack_description = ''No technology stack available for this platform'',
                       stack_pros = [], stack_cons = [], stack_cost_factor = None,
                       stack_timeline_factor = None, stack_confidence = 0\<rparr>
              | first # others \<Rightarrow>
                  (let recommended_stack =
                         (if p = ''mobile''
                          then (if business \<in> set [''restaurant'', ''logistics''] then ''flutter''
                                else if business \<in> set [''healthcare'', ''finance'']
                                then ''react_native''
                                else ''flutter'')
                          else if p = ''web''
                          then (if business \<in> set [''retail'', ''real_estate''] then ''mern''
                                else if business \<in> set [''healthcare'', ''finance'']
                                then ''django''
                                else if business \<in> set [''education''] then ''laravel''
                                else ''mern'')
                          else ''electron'');
                       recommended_stack =
                         (case optional additional_info info_tech_stack_preference of
                            None \<Rightarrow> recommended_stack
                          | Some preference \<Rightarrow> preference);
                       tech_stack_info =
                         (case map_of (first # others) recommended_stack of
                            None \<Rightarrow> snd first
                          | Some info \<Rightarrow> info)
                   in Inr \<lparr>tech_stack = recommended_stack,
                           stack_name = Some (name tech_stack_info),
                           stack_description = description tech_stack_info,
                           stack_pros = pros tech_stack_info,
                           stack_cons = cons tech_stack_info,
                           stack_cost_factor = Some (cost_factor tech_stack_info),
                           stack_timeline_factor = Some (timeline_factor tech_stack_info),
                           stack_confidence = confidence platform_rec\<rparr>)))"

subsection \<open>Cost and timeline\<close>

text \<open>
  \<open>platform_rec.get('business_type', ('retail', 0.5))\<close>: the dictionary has the keys
  type, platform, confidence and reasoning, so this lookup finds nothing.
\<close>

definition get_business_type :: "platform_rec \<Rightarrow> (string \<times> real) option" where
  "get_business_type platform_rec = None"

definition business_multipliers :: "(string \<times> real) list" where
  "business_multipliers =
     [(''healthcare'', 1.3), (''finance'', 1.4), (''logistics'', 1.2), (''retail'', 1.0),
      (''restaurant'', 0.9), (''education'', 1.1), (''real_estate'', 1.0),
      (''consulting'', 0.9)]"

definition base_costs :: "(string \<times> int) list" where
  "base_costs = [(''mobile'', 15000), (''web'', 12000), (''desktop'', 10000)]"

definition base_timelines :: "(string \<times> int) list" where
  "base_timelines = [(''mobile'', 12), (''web'', 10), (''desktop'', 8)]"

definition estimate_cost ::
  "platform_rec \<Rightarrow> feature_rec list \<Rightarrow> tech_stack_rec \<Rightarrow> additional_info option \<Rightarrow> cost_estimate" where
  "estimate_cost platform_rec features_rec tech_stack_rec additional_info =
     (let p = platform platform_rec;
          base_platform_cost = (case map_of base_costs p of None \<Rightarrow> 12000 | Some c \<Rightarrow> c);
          features_cost = sum_list (map estimated_cost features_rec);
          tech_stack_cost_factor =
            (case stack_cost_factor tech_stack_rec of None \<Rightarrow> 1.0 | Some f \<Rightarrow> f);
          (business, _) =
            (case get_business_type platform_rec of None \<Rightarrow> (''retail'', 0.5) | Some v \<Rightarrow> v);
          business_multiplier =
            (case map_of business_multipliers business of None \<Rightarrow> 1.0 | Some m \<Rightarrow> m);
          total = of_int (base_platform_cost + features_cost) * tech_stack_cost_factor *
                  business_multiplier;
          total = (case optional additional_info info_budget_constraint of
                     None \<Rightarrow> total
                   | Some budget \<Rightarrow> min total budget)
      in \<lparr>base_cost = base_platform_cost, feature_cost = features_cost,
          total_cost = py_round total 2,
          cost_range = (py_round (total * 0.8) 2, py_round (total * 1.2) 2),
          currency = ''USD''\<rparr>)"

definition estimate_timeline ::
  "platform_rec \<Rightarrow> feature_rec list \<Rightarrow> tech_stack_rec \<Rightarrow> additional_info option \<Rightarrow> timeline_estimate" where
  "estimate_timeline platform_rec features_rec tech_stack_rec additional_info =
     (let p = platform platform_rec;
          base_platform_timeline = (case map_of base_timelines p of None \<Rightarrow> 10 | Some t \<Rightarrow> t);
          features_timeline = sum_list (map estimated_effort features_rec);
          tech_stack_timeline_factor =
            (case stack_timeline_factor tech_stack_rec of None \<Rightarrow> 1.0 | Some f \<Rightarrow> f);
          total = of_int (base_platform_timeline + features_timeline) *
                  tech_stack_timeline_factor;
          total = (case optional additional_info info_timeline_constraint of
                     None \<Rightarrow> total
                   | Some limit \<Rightarrow> min total limit)
      in \<lparr>base_timeline = base_platform_timeline, feature_timeline = features_timeline,
          total_timeline = py_round total 1,
          timeline_range = (py_round (total * 0.8) 1, py_round (total * 1.2) 1),
          unit_ = ''weeks''\<rparr>)"

subsection \<open>Confidence\<close>

definition calculate_confidence :: "analysis \<Rightarrow> platform_rec \<Rightarrow> feature_rec list \<Rightarrow> real" where
  "calculate_confidence analysis platform_rec features_rec =
     (let clarity = clarity_score analysis;
          (business, business_confidence) = business_type analysis;
          platform_confidence = confidence platform_rec;
          confidence_factors =
            [clarity * 0.3,
             business_confidence * 0.3,
             platform_confidence * 0.2,
             min 1.0 (of_nat (length features_rec) / 10) * 0.2];
          total_confidence = sum_list confidence_factors
      in py_round total_confidence 2)"

subsection \<open>The entry point\<close>

definition generate_recommendation ::
  "(string \<Rightarrow> string list) \<Rightarrow> (string \<Rightarrow> real \<times> real) \<Rightarrow> rng \<Rightarrow>
   string \<Rightarrow> additional_info option \<Rightarrow> py_error + recommendation" where
  "generate_recommendation nlp blob g client_input additional_info =
     (case analyze_text nlp blob client_input of
        Inl e \<Rightarrow> Inl e
      | Inr analysis \<Rightarrow>
     (let needs = needs_clarification analysis;
          questions = generate_clarification_questions analysis
      in case recommend_platform analysis additional_info of
           Inl e \<Rightarrow> Inl e
         | Inr platform_rec \<Rightarrow>
       (case recommend_features analysis additional_info g of
           Inl e \<Rightarrow> Inl e
         | Inr (features_rec, g') \<Rightarrow>
       (case recommend_tech_stack platform_rec analysis additional_info of
           Inl e \<Rightarrow> Inl e
         | Inr tech_stack_rec \<Rightarrow>
           Inr \<lparr>input_analysis = analysis,
                rec_needs_clarification = needs,
                clarification_questions = questions,
                platform_recommendation = platform_rec,
                feature_recommendations = features_rec,
                tech_stack_recommendation = tech_stack_rec,
                cost_estimate =
                  estimate_cost platform_rec features_rec tech_stack_rec additional_info,
                timeline_estimate =
                  estimate_timeline platform_rec features_rec tech_stack_rec additional_info,
                confidence_score =
                  calculate_confidence analysis platform_rec features_rec\<rparr>))))"

section \<open>Notions of the specification\<close>

text \<open>\<open>k\<close> occurs in \<open>t\<close> as a substring.\<close>

definition occurs_in :: "string \<Rightarrow> string \<Rightarrow> bool" where
  "occurs_in k t = (\<exists>before after. t = before @ k @ after)"

text \<open>How many of the keywords occur in the lower-cased text.\<close>

definition keyword_hits :: "string list \<Rightarrow> string \<Rightarrow> nat" where
  "keyword_hits keywords text = card {k \<in> set keywords. occurs_in k (lower text)}"

text \<open>The size of the largest keyword set among the business categories.\<close>

definition largest_keyword_set :: nat where
  "largest_keyword_set =
     Max ((\<lambda>(category, keywords). card (set keywords)) ` set business_keywords)"

text \<open>The clarification questions in their priority order, each with its trigger.\<close>

definition question_order :: "analysis \<Rightarrow> (bool \<times> string) list" where
  "question_order a =
     [(fst (business_type a) = ''unknown'' \<or> snd (business_type a) < 0.3,
         ''What type of business do you operate?''),
      (detected_features a = [],
         ''What specific features or functionality do you need?''),
      (\<not> budget_mentioned (budget_indicators a),
         ''Do you have a budget range in mind for this project?''),
      (\<not> timeline_mentioned (timeline_indicators a),
         ''When do you need this system to be completed?''),
      (clarity_score a < 0.4,
         ''Can you provide more details about your business requirements?'')]"



text \<open>
  The total cost as the specification words it, without a budget: base cost plus feature
  costs, times the cost factor of the stack, times the multiplier of the business type of
  the recommendation (1.0 for a type that is not listed).
\<close>

definition spec_total_cost :: "platform_rec \<Rightarrow> feature_rec list \<Rightarrow> tech_stack_rec \<Rightarrow> real" where
  "spec_total_cost platform_rec features_rec tech_stack_rec =
     of_int ((case map_of base_costs (platform platform_rec) of None \<Rightarrow> 12000 | Some c \<Rightarrow> c) +
             sum_list (map estimated_cost features_rec)) *
     (case stack_cost_factor tech_stack_rec of None \<Rightarrow> 1.0 | Some f \<Rightarrow> f) *
     (case map_of business_multipliers (rec_type platform_rec) of None \<Rightarrow> 1.0 | Some m \<Rightarrow> m)"

text \<open>The same for the three parts of a finished recommendation.\<close>

definition spec_total_cost_of :: "recommendation \<Rightarrow> real" where
  "spec_total_cost_of r =
     spec_total_cost (platform_recommendation r) (feature_recommendations r)
       (tech_stack_recommendation r)"

section \<open>Example inputs\<close>

text \<open>A tokenizer that splits at whitespace, a sentiment analyser that is always neutral,
  and a random source whose every draw is the lowest value of its range.\<close>

definition whitespace_tokens :: "string \<Rightarrow> string list" where
  "whitespace_tokens s = str_split s"

definition neutral_sentiment :: "string \<Rightarrow> real \<times> real" where
  "neutral_sentiment s = (0, 0)"

definition lowest_draws :: rng where
  "lowest_draws i = 0"

definition empty_info :: additional_info where
  "empty_info =
     \<lparr>info_portability_requirement = None, info_business_type = None,
      info_access_requirement = None, info_budget_constraint = None,
      info_timeline_constraint = None, info_requested_features = None,
      info_tech_stack_preference = None\<rparr>"

definition retail_info :: additional_info where
  "retail_info =
     empty_info\<lparr>info_portability_requirement := Some ''medium'',
                info_business_type := Some ''retail'',
                info_access_requirement := Some ''online''\<rparr>"

definition logistics_info :: additional_info where
  "logistics_info =
     empty_info\<lparr>info_portability_requirement := Some ''high'',
                info_business_type := Some ''logistics'',
                info_access_requirement := Some ''online''\<rparr>"


text \<open>What \<open>analyze_text\<close> gives for the text \<open>shop\<close> with the tokenizer and analyser above.\<close>

definition shop_analysis :: analysis where
  "shop_analysis =
     \<lparr>original_text = ''shop'', processed_text = ''shop'', clarity_score = 1,
      business_type = (''retail'', 0.12), platform_preference = (''web'', 0.3),
      detected_features = [], sentiment = (0, 0), urgency_level = ''low'',
      budget_indicators =
        \<lparr>budget_mentioned = False, budget_amounts = [], has_budget_info = False\<rparr>,
      timeline_indicators =
        \<lparr>timeline_mentioned = False, time_indicators = [], has_timeline_info = False\<rparr>,
      portability = ''medium'', notification_requirement = ''none''\<rparr>"


definition logistics_mobile :: platform_rec where
  "logistics_mobile =
     \<lparr>rec_type = ''logistics'', platform = ''mobile'', confidence = 0.95,
      reasoning = ''Mobile recommended due to high portability requirement''\<rparr>"

definition flutter_stack :: tech_stack_rec where
  "flutter_stack =
     \<lparr>tech_stack = ''flutter'', stack_name = Some ''Flutter + Firebase'',
      stack_description = ''Cross-platform mobile development with cloud backend'',
      stack_pros = [''Cross-platform'', ''Fast development'', ''Rich UI components''],
      stack_cons = [''Limited native features'', ''Large app size''],
      stack_cost_factor = Some 1.0, stack_timeline_factor = Some 1.0,
      stack_confidence = 0.95\<rparr>"

section \<open>Auxiliary facts\<close>

subsection \<open>Rounding\<close>







subsection \<open>Substrings and keyword counts\<close>

lemma starts_with_iff: "starts_with k t = (\<exists>after. t = k @ after)"
  by (induction k t rule: starts_with.induct) auto

lemma contains_iff: "contains k t = occurs_in k t"
proof (induction t)
  case Nil
  then show ?case by (auto simp: occurs_in_def)
next
  case (Cons c cs)
  have "occurs_in k (c # cs) = ((\<exists>after. c # cs = k @ after) \<or> occurs_in k cs)"
    unfolding occurs_in_def
    apply (rule iffI)
     apply (metis append_eq_Cons_conv append_self_conv2)
    apply (metis append_Cons append_Nil)
    done
  with Cons show ?case by (simp add: starts_with_iff)
qed

lemma keyword_count_card:
  "distinct keywords \<Longrightarrow> keyword_count keywords t = card {k \<in> set keywords. occurs_in k t}"
  by (simp add: keyword_count_def contains_iff distinct_length_filter Int_def conj_commute)

lemma keyword_hits_count:
  "distinct keywords \<Longrightarrow> keyword_hits keywords text = keyword_count keywords (lower text)"
  by (simp add: keyword_hits_def keyword_count_card)

lemma major_notification_keywords_distinct: "distinct major_notification_keywords"
  by (simp add: major_notification_keywords_def)

lemma business_keywords_distinct:
  "(category, keywords) \<in> set business_keywords \<Longrightarrow> distinct keywords"
  by (auto simp: business_keywords_def)

lemma business_scores:
  "keyword_scores business_keywords (lower text) =
     map (\<lambda>(category, keywords). (category, keyword_hits keywords text)) business_keywords"
  unfolding keyword_scores_def keyword_hits_def
  by (rule map_cong) (auto simp: keyword_count_card business_keywords_distinct)

lemma largest_keyword_set_eq: "largest_keyword_set = max_keywords business_keywords"
  unfolding largest_keyword_set_def max_keywords_def business_keywords_def
  by simp

subsection \<open>The first maximum\<close>

lemma max_by_score_keeps:
  "\<forall>y \<in> set xs. snd y \<le> snd r \<Longrightarrow> max_by_score r xs = r"
  by (induction xs) auto

lemma max_by_score_reaches:
  "\<forall>y \<in> set pre. snd y < snd r \<Longrightarrow> \<forall>y \<in> set post. snd y \<le> snd r \<Longrightarrow> snd best < snd r \<Longrightarrow>
   max_by_score best (pre @ r # post) = r"
proof (induction pre arbitrary: best)
  case Nil
  then show ?case by (simp add: max_by_score_keeps)
next
  case (Cons p pre)
  then show ?case by simp
qed

lemma max_by_score_first_max:
  assumes "x # xs = pre @ r # post"
      and "\<forall>y \<in> set pre. snd y < snd r"
      and "\<forall>y \<in> set post. snd y \<le> snd r"
  shows "max_by_score x xs = r"
proof (cases pre)
  case Nil
  with assms show ?thesis by (simp add: max_by_score_keeps)
next
  case (Cons p pre')
  with assms have "x = p" "xs = pre' @ r # post" "snd x < snd r"
    "\<forall>y \<in> set pre'. snd y < snd r"
    by simp_all
  with assms(3) show ?thesis by (simp add: max_by_score_reaches)
qed

lemma first_max_exists:
  fixes f :: "'a \<Rightarrow> nat"
  assumes "xs \<noteq> []"
  shows "\<exists>pre x post. xs = pre @ x # post \<and> (\<forall>y \<in> set pre. f y < f x) \<and>
           (\<forall>y \<in> set post. f y \<le> f x)"
  using assms
proof (induction xs)
  case Nil
  then show ?case by simp
next
  case (Cons a ys)
  show ?case
  proof (cases "ys = []")
    case True
    then have "a # ys = [] @ a # []" by simp
    then show ?thesis by fastforce
  next
    case False
    with Cons.IH obtain pre x post where
      ys: "ys = pre @ x # post" and pre: "\<forall>y \<in> set pre. f y < f x"
      and post: "\<forall>y \<in> set post. f y \<le> f x"
      by blast
    show ?thesis
    proof (cases "f a < f x")
      case True
      with ys pre post have "a # ys = (a # pre) @ x # post \<and>
          (\<forall>y \<in> set (a # pre). f y < f x) \<and> (\<forall>y \<in> set post. f y \<le> f x)"
        by simp
      then show ?thesis by blast
    next
      case False
      with ys pre post have "a # ys = [] @ a # ys \<and>
          (\<forall>y \<in> set []. f y < f a) \<and> (\<forall>y \<in> set ys. f y \<le> f a)"
        by fastforce
      then show ?thesis by blast
    qed
  qed
qed

subsection \<open>What the analyzer produces\<close>

lemma best_match_key:
  "fst (best_match table dflt text) \<in> insert (fst dflt) (fst ` set table)"
proof -
  have in_set: "max_by_score x xs \<in> set (x # xs)" for x :: "string \<times> nat" and xs
    by (induction xs arbitrary: x) (auto split: if_splits)
  have keys: "fst ` set (keyword_scores table t) = fst ` set table" for t
    by (force simp: keyword_scores_def)
  show ?thesis
  proof (cases "keyword_scores table (lower text)")
    case Nil
    then show ?thesis by (simp add: best_match_def)
  next
    case (Cons x xs)
    obtain best score where m: "max_by_score x xs = (best, score)"
      by (cases "max_by_score x xs")
    have "fst (max_by_score x xs) \<in> fst ` set table"
      using in_set[of x xs] keys[of "lower text"] Cons by (metis imageI)
    then have "best \<in> fst ` set table"
      by (simp add: m)
    then show ?thesis
      by (simp add: best_match_def Cons Let_def m)
  qed
qed

lemma detect_platform_preference_platform:
  "fst (detect_platform_preference text) \<in> {''mobile'', ''web'', ''desktop''}"
  using best_match_key[of platform_indicators "(''web'', 0.3)" "text"]
  by (auto simp: detect_platform_preference_def platform_indicators_def)

lemma detect_notification_requirement_level:
  "detect_notification_requirement text \<in> {''none'', ''minor'', ''major''}"
  by (simp add: detect_notification_requirement_def Let_def)

lemma extract_features_categories:
  "distinct (extract_features text) \<and>
   set (extract_features text) \<subseteq> set (map fst feature_keywords)"
proof -
  have "distinct (map fst feature_keywords)"
    by (simp add: feature_keywords_def)
  then show ?thesis
    unfolding extract_features_def Let_def
    by (auto simp: distinct_map_filter)
qed



lemma analyze_text_signals:
  assumes "analyze_text nlp blob text = Inr a"
  shows "fst (platform_preference a) \<in> {''mobile'', ''web'', ''desktop''}"
    and "notification_requirement a \<in> {''none'', ''minor'', ''major''}"
    and "distinct (detected_features a)"
    and "set (detected_features a) \<subseteq> set (map fst feature_keywords)"
proof -
  from assms have
    "platform_preference a = detect_platform_preference text"
    "notification_requirement a = detect_notification_requirement text"
    "detected_features a = extract_features text"
    by (auto simp: analyze_text_def split: sum.splits)
  then show "fst (platform_preference a) \<in> {''mobile'', ''web'', ''desktop''}"
    and "notification_requirement a \<in> {''none'', ''minor'', ''major''}"
    and "distinct (detected_features a)"
    and "set (detected_features a) \<subseteq> set (map fst feature_keywords)"
    using detect_platform_preference_platform[of "text"]
      detect_notification_requirement_level[of "text"] extract_features_categories[of "text"]
    by simp_all
qed

section \<open>The claims\<close>

subsection \<open>C1: the cost formula\<close>

lemma estimate_cost_unconstrained:
  "total_cost (estimate_cost pr fs ts None) =
     py_round (of_int ((case map_of base_costs (platform pr) of None \<Rightarrow> 12000 | Some c \<Rightarrow> c) +
                       sum_list (map estimated_cost fs)) *
               (case stack_cost_factor ts of None \<Rightarrow> 1 | Some f \<Rightarrow> f)) 2"
  by (simp add: estimate_cost_def get_business_type_def business_multipliers_def optional_def
      Let_def split: option.split)

text \<open>
  C1 says that, without a budget constraint, the total cost is base cost plus feature
  costs, times the cost factor of the stack, times the multiplier of the business type of
  the recommendation. The estimator looks the business type up under a key that the
  platform recommendation does not have, so it always takes the multiplier of retail,
  1.0. For the text \<open>shop\<close> and a logistics business with a high portability requirement,
  where every feature costs 1000, the engine returns a total cost of 18000, and the
  formula of the claim would give 18000 times 1.2; for the same platform recommendation
  with the Flutter stack and no feature the estimator returns 15000, and the formula
  would give 15000 times 1.2.
\<close>

theorem business_multiplier_not_applied:
  "map_sum id (total_cost \<circ> cost_estimate)
     (generate_recommendation whitespace_tokens neutral_sentiment lowest_draws ''shop''
        (Some logistics_info)) = Inr 18000 \<and>
   map_sum id spec_total_cost_of
     (generate_recommendation whitespace_tokens neutral_sentiment lowest_draws ''shop''
        (Some logistics_info)) = Inr 21600 \<and>
   total_cost (estimate_cost logistics_mobile [] flutter_stack None) = 15000 \<and>
   spec_total_cost logistics_mobile [] flutter_stack = 18000"
  by code_simp

subsection \<open>C2: the platform decision\<close>

lemma lower_level: "n \<in> {''none'', ''minor'', ''major''} \<Longrightarrow> lower n = n"
  by (auto simp: lower_def lower_char_def)

text \<open>
  C2: for signals whose platform preference is mobile, web or desktop and whose
  notification requirement is none, minor or major, and for an AdditionalInfo that
  carries the three required fields, the platform recommender returns a recommendation;
  its business type is the one of AdditionalInfo and its platform is mobile, web or
  desktop; it is mobile with confidence 0.95 if the portability requirement is high or
  the notification requirement is major, else desktop with confidence 0.90 if the
  portability requirement is low or the access requirement is offline, else the detected
  platform preference with confidence 0.90.
\<close>

theorem platform_decision_order:
  assumes "fst (platform_preference a) \<in> {''mobile'', ''web'', ''desktop''}"
      and "notification_requirement a \<in> {''none'', ''minor'', ''major''}"
      and "info_portability_requirement d = Some portability_req"
      and "info_business_type d = Some business"
      and "info_access_requirement d = Some access"
  shows "\<exists>r. recommend_platform a (Some d) = Inr r \<and>
           rec_type r = business \<and>
           platform r \<in> {''mobile'', ''web'', ''desktop''} \<and>
           (if portability_req = ''high'' \<or> notification_requirement a = ''major''
            then platform r = ''mobile'' \<and> confidence r = 0.95
            else if portability_req = ''low'' \<or> access = ''offline''
            then platform r = ''desktop'' \<and> confidence r = 0.9
            else platform r = fst (platform_preference a) \<and> confidence r = 0.9)"
proof -
  obtain pref pconf where pp: "platform_preference a = (pref, pconf)"
    by (cases "platform_preference a")
  have l: "lower (notification_requirement a) = notification_requirement a"
    using assms(2) by (rule lower_level)
  consider (mobile) "portability_req = ''high'' \<or> notification_requirement a = ''major''"
    | (desktop) "\<not> (portability_req = ''high'' \<or> notification_requirement a = ''major'')"
        "portability_req = ''low'' \<or> access = ''offline''"
    | (preference) "\<not> (portability_req = ''high'' \<or> notification_requirement a = ''major'')"
        "\<not> (portability_req = ''low'' \<or> access = ''offline'')"
    by blast
  then show ?thesis
  proof cases
    case mobile
    then have "recommend_platform a (Some d) =
        Inr \<lparr>rec_type = business, platform = ''mobile'', confidence = 0.95,
             reasoning = ''Mobile recommended due to high portability requirement''\<rparr>"
      using assms(3,4,5) by (simp add: recommend_platform_def subscript_def l pp)
    with mobile show ?thesis by simp
  next
    case desktop
    then have "recommend_platform a (Some d) =
        Inr \<lparr>rec_type = business, platform = ''desktop'', confidence = 0.9,
             reasoning = ''Desktop recommended due to low portability requirement''\<rparr>"
      using assms(3,4,5) by (simp add: recommend_platform_def subscript_def l pp)
    with desktop show ?thesis by simp
  next
    case preference
    then have "recommend_platform a (Some d) =
        Inr \<lparr>rec_type = business, platform = pref, confidence = 0.9,
             reasoning = title pref @ '' recommended due to medium portability requirement''\<rparr>"
      using assms(3,4,5) by (simp add: recommend_platform_def subscript_def l pp)
    with preference assms(1) pp show ?thesis by simp
  qed
qed

theorem platform_decision_order_witness:
  "\<exists>r. recommend_platform shop_analysis (Some retail_info) = Inr r \<and>
       rec_type r = ''retail'' \<and> platform r = ''web'' \<and> confidence r = 0.9"
proof -
  have h1: "fst (platform_preference shop_analysis) \<in> {''mobile'', ''web'', ''desktop''}"
    and h2: "notification_requirement shop_analysis \<in> {''none'', ''minor'', ''major''}"
    by (simp_all add: shop_analysis_def)
  have h3: "info_portability_requirement retail_info = Some ''medium''"
    and h4: "info_business_type retail_info = Some ''retail''"
    and h5: "info_access_requirement retail_info = Some ''online''"
    by (simp_all add: retail_info_def empty_info_def)
  have pp: "fst (platform_preference shop_analysis) = ''web''"
    "notification_requirement shop_analysis = ''none''"
    by (simp_all add: shop_analysis_def)
  from platform_decision_order[OF h1 h2 h3 h4 h5] pp show ?thesis
    by auto
qed

subsection \<open>C3: the constraints\<close>







subsection \<open>C4: the business type\<close>

text \<open>
  C4 as stated fails: the classifier rounds the confidence to 2 decimals. In the text
  \<open>shop\<close> one keyword of retail occurs and none of any other category, the largest
  keyword set has 8 keywords, and the confidence returned is 0.12, not 1/8.
\<close>

theorem confidence_rounded_counterexample:
  "classify_business_type ''shop'' = (''retail'', 0.12) \<and>
   keyword_count (snd (hd business_keywords)) (lower ''shop'') = 1 \<and>
   max_keywords business_keywords = 8 \<and>
   (0.12 :: real) \<noteq> 1 / 8"
  by code_simp

text \<open>
  When some keyword occurs there is a first category with the highest count, so the second
  part of the amended claim below always applies then.
\<close>

lemma first_highest_category_exists:
  assumes "\<exists>(category, keywords) \<in> set business_keywords. 0 < keyword_hits keywords text"
  shows "\<exists>pre category keywords post.
           business_keywords = pre @ (category, keywords) # post \<and>
           0 < keyword_hits keywords text \<and>
           (\<forall>(category', keywords') \<in> set pre.
               keyword_hits keywords' text < keyword_hits keywords text) \<and>
           (\<forall>(category', keywords') \<in> set post.
               keyword_hits keywords' text \<le> keyword_hits keywords text)"
proof -
  let ?f = "\<lambda>(category, keywords). keyword_hits keywords text"
  have "business_keywords \<noteq> []"
    using assms by auto
  from first_max_exists[OF this, of ?f] obtain pre x post where
    dec: "business_keywords = pre @ x # post" and
    pre: "\<forall>y \<in> set pre. ?f y < ?f x" and
    post: "\<forall>y \<in> set post. ?f y \<le> ?f x"
    by blast
  obtain cat kws where x: "x = (cat, kws)"
    by (cases x)
  from assms obtain c k where ck: "(c, k) \<in> set business_keywords" "0 < keyword_hits k text"
    by auto
  have "?f (c, k) \<le> ?f x"
    using ck(1) pre post unfolding dec by (auto simp: less_imp_le)
  with ck(2) x have pos: "0 < keyword_hits kws text"
    by simp
  have "business_keywords = pre @ (cat, kws) # post \<and>
        0 < keyword_hits kws text \<and>
        (\<forall>(category', keywords') \<in> set pre.
            keyword_hits keywords' text < keyword_hits kws text) \<and>
        (\<forall>(category', keywords') \<in> set post.
            keyword_hits keywords' text \<le> keyword_hits kws text)"
    using dec pre post pos unfolding x by auto
  then show ?thesis
    by blast
qed

text \<open>
  C4, amended: the classifier returns unknown with confidence 0 when no keyword of any
  category occurs in the lower-cased text; otherwise it returns the first category, in
  the order of the table, whose number of occurring keywords is the highest, with the
  confidence equal to that number divided by the size of the largest keyword set,
  rounded to 2 decimals.
\<close>

theorem classify_business_type_rounded:
  "((\<forall>(category, keywords) \<in> set business_keywords. keyword_hits keywords text = 0) \<longrightarrow>
      classify_business_type text = (''unknown'', 0)) \<and>
   (business_keywords = pre @ (category, keywords) # post \<and>
    0 < keyword_hits keywords text \<and>
    (\<forall>(category', keywords') \<in> set pre.
        keyword_hits keywords' text < keyword_hits keywords text) \<and>
    (\<forall>(category', keywords') \<in> set post.
        keyword_hits keywords' text \<le> keyword_hits keywords text) \<longrightarrow>
      classify_business_type text =
        (category, py_round (real (keyword_hits keywords text) / real largest_keyword_set) 2))"
proof (intro conjI impI)
  let ?f = "\<lambda>(category, keywords). (category, keyword_hits keywords text)"
  assume "\<forall>(category, keywords) \<in> set business_keywords. keyword_hits keywords text = 0"
  then have "\<not> list_ex (\<lambda>(key, score). score \<noteq> 0) (map ?f business_keywords)"
    by (auto simp: list_ex_iff)
  then show "classify_business_type text = (''unknown'', 0)"
    by (simp add: classify_business_type_def best_match_def business_scores)
next
  let ?f = "\<lambda>(category, keywords). (category, keyword_hits keywords text)"
  assume a: "business_keywords = pre @ (category, keywords) # post \<and>
    0 < keyword_hits keywords text \<and>
    (\<forall>(category', keywords') \<in> set pre.
        keyword_hits keywords' text < keyword_hits keywords text) \<and>
    (\<forall>(category', keywords') \<in> set post.
        keyword_hits keywords' text \<le> keyword_hits keywords text)"
  let ?r = "(category, keyword_hits keywords text)"
  from a have bk: "business_keywords = pre @ (category, keywords) # post"
    by (rule conjunct1)
  have dec: "map ?f business_keywords = map ?f pre @ ?r # map ?f post"
    by (subst bk) simp
  have any: "list_ex (\<lambda>(key, score). score \<noteq> 0) (map ?f business_keywords)"
    unfolding dec using a by simp
  have "map ?f business_keywords \<noteq> []"
    unfolding dec by simp
  then obtain x xs where xs: "map ?f business_keywords = x # xs"
    by (meson list.exhaust)
  have "max_by_score x xs = ?r"
  proof (rule max_by_score_first_max)
    show "x # xs = map ?f pre @ ?r # map ?f post"
      using xs dec by simp
    show "\<forall>y \<in> set (map ?f pre). snd y < snd ?r"
      using a by auto
    show "\<forall>y \<in> set (map ?f post). snd y \<le> snd ?r"
      using a by auto
  qed
  then show "classify_business_type text =
        (category, py_round (real (keyword_hits keywords text) / real largest_keyword_set) 2)"
    using any
    by (simp add: classify_business_type_def best_match_def business_scores xs
        largest_keyword_set_eq)
qed

theorem classify_business_type_rounded_witness:
  "classify_business_type ''shop'' = (''retail'', py_round (1 / 8) 2)"
proof -
  let ?retail = "snd (hd business_keywords)"
  let ?others = "tl business_keywords"
  have dec: "business_keywords = [] @ (''retail'', ?retail) # ?others"
    by (simp add: business_keywords_def)
  have counts: "map (\<lambda>(category, keywords). keyword_count keywords (lower ''shop''))
                  business_keywords = [1, 0, 0, 0, 0, 0, 0, 0]"
    by code_simp
  have "map (\<lambda>(category, keywords). keyword_hits keywords ''shop'') business_keywords =
        map (\<lambda>(category, keywords). keyword_count keywords (lower ''shop'')) business_keywords"
    by (rule map_cong) (auto simp: keyword_hits_count business_keywords_distinct)
  with counts have hits:
    "map (\<lambda>(category, keywords). keyword_hits keywords ''shop'') business_keywords =
       [1, 0, 0, 0, 0, 0, 0, 0]"
    by simp
  have retail: "keyword_hits ?retail ''shop'' = 1"
    using arg_cong[OF hits, of hd] by (simp add: business_keywords_def)
  have "map (\<lambda>(category, keywords). keyword_hits keywords ''shop'') ?others =
          [0, 0, 0, 0, 0, 0, 0]"
    using arg_cong[OF hits, of tl] by (simp add: business_keywords_def map_tl)
  then have "\<forall>n \<in> set (map (\<lambda>(category, keywords). keyword_hits keywords ''shop'') ?others).
               n = 0"
    by simp
  then have others: "\<forall>(category', keywords') \<in> set ?others.
      keyword_hits keywords' ''shop'' \<le> keyword_hits ?retail ''shop''"
    by (auto simp: retail)
  have largest: "largest_keyword_set = 8"
    unfolding largest_keyword_set_eq by code_simp
  have "business_keywords = [] @ (''retail'', ?retail) # ?others \<and>
    0 < keyword_hits ?retail ''shop'' \<and>
    (\<forall>(category', keywords') \<in> set [].
        keyword_hits keywords' ''shop'' < keyword_hits ?retail ''shop'') \<and>
    (\<forall>(category', keywords') \<in> set ?others.
        keyword_hits keywords' ''shop'' \<le> keyword_hits ?retail ''shop'')"
    using dec others by (simp add: retail)
  with classify_business_type_rounded[of "''shop''" "[]" "''retail''" ?retail ?others]
  show ?thesis
    by (simp add: retail largest)
qed

subsection \<open>C5: clarification\<close>

text \<open>
  C5: generate_clarification_questions returns at most 3 questions, namely the first 3
  of those questions of the priority order (business type unknown or of confidence below
  0.3, no detected feature, no budget mentioned, no timeline mentioned, clarity score
  below 0.4) whose trigger holds; and needs_clarification is true whenever the clarity
  score is below 0.5.
\<close>

theorem clarification_policy:
  "length (generate_clarification_questions a) \<le> 3 \<and>
   generate_clarification_questions a = take 3 (map snd (filter fst (question_order a))) \<and>
   (clarity_score a < 0.5 \<longrightarrow> needs_clarification a)"
proof (intro conjI)
  show "length (generate_clarification_questions a) \<le> 3"
    by (simp add: generate_clarification_questions_def Let_def split: prod.split)
  show "generate_clarification_questions a = take 3 (map snd (filter fst (question_order a)))"
    by (simp add: generate_clarification_questions_def question_order_def Let_def
        split: prod.split)
  show "clarity_score a < 0.5 \<longrightarrow> needs_clarification a"
    by (simp add: needs_clarification_def Let_def split: prod.split)
qed

theorem clarification_policy_witness:
  "clarity_score (shop_analysis\<lparr>clarity_score := 0.2\<rparr>) < 0.5 \<and>
   needs_clarification (shop_analysis\<lparr>clarity_score := 0.2\<rparr>) \<and>
   generate_clarification_questions (shop_analysis\<lparr>clarity_score := 0.2\<rparr>) =
     [''What type of business do you operate?'',
      ''What specific features or functionality do you need?'',
      ''Do you have a budget range in mind for this project?'']"
proof -
  have h: "clarity_score (shop_analysis\<lparr>clarity_score := 0.2\<rparr>) < 0.5"
    by simp
  have q: "take 3 (map snd (filter fst (question_order (shop_analysis\<lparr>clarity_score := 0.2\<rparr>)))) =
     [''What type of business do you operate?'',
      ''What specific features or functionality do you need?'',
      ''Do you have a budget range in mind for this project?'']"
    by (simp add: question_order_def shop_analysis_def)
  from clarification_policy[of "shop_analysis\<lparr>clarity_score := 0.2\<rparr>"] h q show ?thesis
    by simp
qed

subsection \<open>C6: the confidence score\<close>



subsection \<open>C7: the notification requirement\<close>

text \<open>
  C7: the notification requirement is major exactly when at least 2 distinct major
  keywords occur in the lower-cased text; otherwise it is minor if some minor keyword
  occurs, and none if not. The text \<open>urgent real-time alert tracking\<close> gives major.
\<close>

theorem notification_requirement_levels:
  "detect_notification_requirement text =
     (if 2 \<le> card {k \<in> set major_notification_keywords. occurs_in k (lower text)}
      then ''major''
      else if \<exists>k \<in> set minor_notification_keywords. occurs_in k (lower text) then ''minor''
      else ''none'')
   \<and> detect_notification_requirement ''urgent real-time alert tracking'' = ''major''"
proof
  have minor: "(0 < keyword_count minor_notification_keywords t) =
      (\<exists>k \<in> set minor_notification_keywords. occurs_in k t)" for t
    by (auto simp: keyword_count_def contains_iff filter_empty_conv)
  show "detect_notification_requirement text =
     (if 2 \<le> card {k \<in> set major_notification_keywords. occurs_in k (lower text)}
      then ''major''
      else if \<exists>k \<in> set minor_notification_keywords. occurs_in k (lower text) then ''minor''
      else ''none'')"
    unfolding detect_notification_requirement_def Let_def
      keyword_count_card[OF major_notification_keywords_distinct, symmetric] minor[symmetric]
    by simp
  show "detect_notification_requirement ''urgent real-time alert tracking'' = ''major''"
    by code_simp
qed

theorem notification_requirement_levels_witness:
  "detect_notification_requirement ''weekly report with one alert'' = ''minor'' \<and>
   \<not> 2 \<le> card {k \<in> set major_notification_keywords.
                  occurs_in k (lower ''weekly report with one alert'')} \<and>
   (\<exists>k \<in> set minor_notification_keywords. occurs_in k (lower ''weekly report with one alert''))"
proof -
  have v: "detect_notification_requirement ''weekly report with one alert'' = ''minor''"
    by code_simp
  from notification_requirement_levels[of "''weekly report with one alert''"] v
  show ?thesis
    by (auto split: if_splits)
qed

subsection \<open>C8: distinct feature ids\<close>

lemma append_features_ids:
  "map feature (fst (append_features missing prio fs recs g)) = map feature recs @ fs"
proof (induction fs arbitrary: recs g)
  case Nil
  then show ?case by simp
next
  case (Cons f fs)
  obtain r g' where mk: "make_feature f missing prio g = (r, g')"
    by (cases "make_feature f missing prio g")
  then have "feature r = f"
    by (auto simp: make_feature_def Let_def split: prod.splits)
  with Cons[of "recs @ [r]" g'] mk show ?case by simp
qed

lemma append_requested_distinct:
  "distinct (map feature recs) \<Longrightarrow> distinct (map feature (fst (append_requested fs recs g)))"
proof (induction fs arbitrary: recs g)
  case Nil
  then show ?case by simp
next
  case (Cons f fs)
  show ?case
  proof (cases "f \<in> set (map feature recs)")
    case True
    with Cons show ?thesis by simp
  next
    case False
    obtain r g' where
      mk: "make_feature f ''Feature description not available'' ''medium'' g = (r, g')"
      by (cases "make_feature f ''Feature description not available'' ''medium'' g")
    then have "feature r = f"
      by (auto simp: make_feature_def Let_def split: prod.splits)
    with False Cons.prems have "distinct (map feature (recs @ [r]))" by simp
    from Cons.IH[OF this, of g'] False mk show ?thesis by simp
  qed
qed

lemma base_features_fresh:
  "distinct (take 3 (case map_of business_features b of None \<Rightarrow> [] | Some fs \<Rightarrow> fs)) \<and>
   set (take 3 (case map_of business_features b of None \<Rightarrow> [] | Some fs \<Rightarrow> fs)) \<inter>
     set (map fst feature_keywords) = {}"
proof (cases "map_of business_features b")
  case None
  then show ?thesis by simp
next
  case (Some fs)
  then have "(b, fs) \<in> set business_features"
    by (rule map_of_SomeD)
  then show ?thesis
    unfolding Some option.case
    by (auto simp: business_features_def feature_keywords_def)
qed

text \<open>
  C8: when the detected features of the analysis are distinct feature categories of the
  keyword table, as \<open>analyze_text\<close> produces them, the feature ids in the list returned by
  the feature recommender are pairwise distinct, for every AdditionalInfo.
\<close>

theorem feature_ids_distinct:
  assumes "recommend_features a info g = Inr (recs, g')"
      and "distinct (detected_features a)"
      and "set (detected_features a) \<subseteq> set (map fst feature_keywords)"
  shows "distinct (map feature recs)"
proof -
  obtain b where b: "subscript info ''business_type'' info_business_type = Inr b"
    using assms(1) by (auto simp: recommend_features_def split: sum.splits)
  let ?base = "take 3 (case map_of business_features b of None \<Rightarrow> [] | Some fs \<Rightarrow> fs)"
  obtain recs1 g1 where s1: "(if detected_features a \<noteq> []
                            then append_features ''None'' ''high'' (detected_features a) [] g
                            else ([], g)) = (recs1, g1)"
    by (cases "(if detected_features a \<noteq> []
                            then append_features ''None'' ''high'' (detected_features a) [] g
                            else ([], g))")
  have ids1: "map feature recs1 = detected_features a"
  proof (cases "detected_features a = []")
    case True
    with s1 show ?thesis by simp
  next
    case False
    with s1 have "recs1 = fst (append_features ''None'' ''high'' (detected_features a) [] g)"
      by (metis fst_conv)
    then show ?thesis by (simp add: append_features_ids)
  qed
  obtain recs2 g2 where s2: "append_features ''Feature description not available'' ''medium''
                             ?base recs1 g1 = (recs2, g2)"
    by (cases "append_features ''Feature description not available'' ''medium'' ?base recs1 g1")
  have ids2: "map feature recs2 = detected_features a @ ?base"
    using append_features_ids[of "''Feature description not available''" "''medium''"
        ?base recs1 g1]
    by (simp add: s2 ids1)
  have d2: "distinct (map feature recs2)"
    unfolding ids2 using assms(2,3) base_features_fresh[of b] by auto
  have "recs = recs2 \<or> (\<exists>req. recs = fst (append_requested req recs2 g2))"
    using assms(1) unfolding recommend_features_def b Let_def s1 sum.case prod.case s2
    by (auto split: option.splits) (metis fst_conv)
  then show ?thesis
    using d2 append_requested_distinct[OF d2] by auto
qed

theorem feature_ids_distinct_witness:
  "\<exists>recs g'.
     recommend_features (shop_analysis\<lparr>detected_features := [''inventory'', ''payment'']\<rparr>)
       (Some (retail_info\<lparr>info_requested_features :=
                Some [''payment'', ''wishlist'', ''wishlist'']\<rparr>)) lowest_draws =
       Inr (recs, g') \<and>
     distinct (map feature recs)"
proof -
  let ?a = "shop_analysis\<lparr>detected_features := [''inventory'', ''payment'']\<rparr>"
  let ?info = "Some (retail_info\<lparr>info_requested_features :=
                Some [''payment'', ''wishlist'', ''wishlist'']\<rparr>)"
  have "\<not> isl (recommend_features ?a ?info lowest_draws)"
    by (simp add: recommend_features_def subscript_def retail_info_def empty_info_def
        optional_def Let_def split: prod.split)
  then obtain recs g' where r: "recommend_features ?a ?info lowest_draws = Inr (recs, g')"
    by (metis isl_def sum.exhaust surj_pair)
  have h1: "distinct (detected_features ?a)"
    by simp
  have h2: "set (detected_features ?a) \<subseteq> set (map fst feature_keywords)"
    by (simp add: feature_keywords_def)
  from feature_ids_distinct[OF r h1 h2] r show ?thesis
    by blast
qed

subsection \<open>C9: missing configuration\<close>





subsection \<open>C10: an unregistered stack preference\<close>




end
